theory Spec2Isabelle
  imports Complex_Main "HOL-Library.Multiset"
begin

section \<open>Values shared by the modules\<close>

text \<open>
  Exceptions of the Python code are values. \<open>AssertionError\<close> is what a failed
  \<^verbatim>\<open>assert\<close> raises, \<open>ValueError\<close> and \<open>IndexError\<close> are what numpy raises on a
  reduction of an empty array and on a boolean index of the wrong length,
  \<open>KeyError\<close> is a failed dictionary lookup, \<open>TypeError\<close> and \<open>AttributeError\<close> are
  what Python raises on an operation that the value at hand does not have, and
  \<open>Exception\<close> carries the message of a plain \<^verbatim>\<open>raise Exception(...)\<close>.
\<close>

datatype error = AssertionError | ValueError | IndexError | KeyError | TypeError | AttributeError
  | Exception string

text \<open>
  A numpy array is its shape together with its elements in row-major order.
  The elements are the finite floating-point numbers of the array, read as
  real numbers: rounding and overflow are not modelled. An array is
  well-formed when the number of elements is the product of the shape.
\<close>

record ndarray =
  shape :: "nat list"
  data :: "real list"

definition wf_ndarray :: "ndarray \<Rightarrow> bool" where
  "wf_ndarray a = (length (data a) = prod_list (shape a))"

text \<open>
  Results of floating-point arithmetic that may leave the finite numbers:
  numpy does not raise on a division by zero, it returns \<open>inf\<close>, \<open>-inf\<close> or
  \<open>nan\<close> (with a warning) and carries on. Zero is taken as \<open>+0.0\<close>.
\<close>

datatype npfloat = Finite real | PosInf | NegInf | NaN

fun np_neg :: "npfloat \<Rightarrow> npfloat" where
  "np_neg (Finite a) = Finite (- a)"
| "np_neg PosInf = NegInf"
| "np_neg NegInf = PosInf"
| "np_neg NaN = NaN"

fun np_add :: "npfloat \<Rightarrow> npfloat \<Rightarrow> npfloat" where
  "np_add (Finite a) (Finite b) = Finite (a + b)"
| "np_add NaN _ = NaN"
| "np_add _ NaN = NaN"
| "np_add PosInf NegInf = NaN"
| "np_add NegInf PosInf = NaN"
| "np_add PosInf _ = PosInf"
| "np_add _ PosInf = PosInf"
| "np_add NegInf _ = NegInf"
| "np_add _ NegInf = NegInf"

definition np_sub :: "npfloat \<Rightarrow> npfloat \<Rightarrow> npfloat" where
  "np_sub a b = np_add a (np_neg b)"

fun np_div :: "npfloat \<Rightarrow> npfloat \<Rightarrow> npfloat" where
  "np_div (Finite a) (Finite b) =
     (if b \<noteq> 0 then Finite (a / b)
      else if a = 0 then NaN else if 0 < a then PosInf else NegInf)"
| "np_div NaN _ = NaN"
| "np_div _ NaN = NaN"
| "np_div (Finite a) _ = Finite 0"
| "np_div PosInf (Finite b) = (if 0 \<le> b then PosInf else NegInf)"
| "np_div NegInf (Finite b) = (if 0 \<le> b then NegInf else PosInf)"
| "np_div _ _ = NaN"

fun np_abs :: "npfloat \<Rightarrow> npfloat" where
  "np_abs (Finite a) = Finite \<bar>a\<bar>"
| "np_abs NaN = NaN"
| "np_abs _ = PosInf"

text \<open>\<^verbatim>\<open>np.power(x, 2.0)\<close> on one element.\<close>

fun np_square :: "npfloat \<Rightarrow> npfloat" where
  "np_square (Finite a) = Finite (a ^ 2)"
| "np_square NaN = NaN"
| "np_square _ = PosInf"

text \<open>
  \<^verbatim>\<open>np.power(np.abs(d), p)\<close> on one element, for an integer \<open>p\<close>: a negative power
  of zero is \<open>inf\<close>.
\<close>

definition np_power_abs :: "real \<Rightarrow> int \<Rightarrow> npfloat" where
  "np_power_abs d p =
     (if 0 \<le> p then Finite (\<bar>d\<bar> ^ nat p)
      else if d = 0 then PosInf else Finite (1 / \<bar>d\<bar> ^ nat (- p)))"

definition np_sum :: "npfloat list \<Rightarrow> npfloat" where
  "np_sum xs = foldl np_add (Finite 0) xs"

text \<open>
  \<^verbatim>\<open>.mean()\<close>: the sum divided by the number of elements. On an empty array
  this is \<open>0.0 / 0\<close>, which numpy returns as \<open>nan\<close>.
\<close>

definition np_mean :: "npfloat list \<Rightarrow> npfloat" where
  "np_mean xs = np_div (np_sum xs) (Finite (real (length xs)))"

section \<open>similarity\_analyzer.py\<close>

text \<open>
  The two \<^verbatim>\<open>isinstance\<close> assertions hold by typing: both arguments are arrays.
  What is left is the comparison of the shapes.
\<close>

definition validate_before_compute_similarity :: "ndarray \<Rightarrow> ndarray \<Rightarrow> error + unit" where
  "validate_before_compute_similarity float_tensor fxp_tensor =
     (if shape float_tensor = shape fxp_tensor then Inr () else Inl AssertionError)"

text \<open>
  \<^verbatim>\<open>np.power(np.power(np.abs(x.flatten()), p).sum(), 1.0/p)\<close>. The module calls it
  with \<open>p = 2.0\<close> and \<open>p = 1.0\<close>; the model is that of a positive \<open>p\<close>, where a
  zero base gives zero.
\<close>

definition tensor_norm :: "ndarray \<Rightarrow> real \<Rightarrow> real" where
  "tensor_norm x p = (\<Sum>v\<leftarrow>data x. \<bar>v\<bar> powr p) powr (1 / p)"

definition compute_mse :: "ndarray \<Rightarrow> ndarray \<Rightarrow> bool \<Rightarrow> real \<Rightarrow> error + npfloat" where
  "compute_mse float_tensor fxp_tensor do_norm norm_eps =
     (case validate_before_compute_similarity float_tensor fxp_tensor of
        Inl e \<Rightarrow> Inl e
      | Inr _ \<Rightarrow>
          (let error = np_mean (map2 (\<lambda>a b. Finite ((a - b) ^ 2)) (data float_tensor) (data fxp_tensor))
           in if do_norm
              then Inr (np_div error
                     (np_add (np_mean (map (\<lambda>a. Finite (a ^ 2)) (data float_tensor))) (Finite norm_eps)))
              else Inr error))"

definition compute_nmse :: "ndarray \<Rightarrow> ndarray \<Rightarrow> error + npfloat" where
  "compute_nmse float_tensor fxp_tensor =
     (case validate_before_compute_similarity float_tensor fxp_tensor of
        Inl e \<Rightarrow> Inl e
      | Inr _ \<Rightarrow>
          (let normalized_float_tensor =
                 map (\<lambda>a. np_div (Finite a) (Finite (tensor_norm float_tensor 2))) (data float_tensor);
               normalized_fxp_tensor =
                 map (\<lambda>b. np_div (Finite b) (Finite (tensor_norm fxp_tensor 2))) (data fxp_tensor)
           in Inr (np_mean (map2 (\<lambda>a b. np_square (np_sub a b))
                     normalized_float_tensor normalized_fxp_tensor))))"

definition compute_nmae :: "ndarray \<Rightarrow> ndarray \<Rightarrow> error + npfloat" where
  "compute_nmae float_tensor fxp_tensor =
     (case validate_before_compute_similarity float_tensor fxp_tensor of
        Inl e \<Rightarrow> Inl e
      | Inr _ \<Rightarrow>
          (let normalized_float_tensor =
                 map (\<lambda>a. np_div (Finite a) (Finite (tensor_norm float_tensor 1))) (data float_tensor);
               normalized_fxp_tensor =
                 map (\<lambda>b. np_div (Finite b) (Finite (tensor_norm fxp_tensor 1))) (data fxp_tensor)
           in Inr (np_mean (map2 (\<lambda>a b. np_abs (np_sub a b))
                     normalized_float_tensor normalized_fxp_tensor))))"

definition compute_mae :: "ndarray \<Rightarrow> ndarray \<Rightarrow> bool \<Rightarrow> real \<Rightarrow> error + npfloat" where
  "compute_mae float_tensor fxp_tensor do_norm norm_eps =
     (case validate_before_compute_similarity float_tensor fxp_tensor of
        Inl e \<Rightarrow> Inl e
      | Inr _ \<Rightarrow>
          (let error = np_mean (map2 (\<lambda>a b. Finite \<bar>a - b\<bar>) (data float_tensor) (data fxp_tensor))
           in if do_norm
              then Inr (np_div error
                     (np_add (np_mean (map (\<lambda>a. Finite \<bar>a\<bar>) (data float_tensor))) (Finite norm_eps)))
              else Inr error))"

text \<open>
  The default of \<^verbatim>\<open>eps\<close> and of \<^verbatim>\<open>norm_eps\<close>, \<open>1e-8\<close>. The flag \<^verbatim>\<open>norm\<close> of the
  source is \<open>do_norm\<close> in the definitions.
\<close>

definition default_eps :: real where
  "default_eps = 1 / 10 ^ 8"

text \<open>
  In \<open>compute_cs\<close> the check of the shapes and the test for two zero tensors
  are exact. The last branch is written with the arithmetic of the real
  numbers, where the code rounds every operation to a float: there the value
  that the code returns differs from the one below by the rounding (it can
  come out as exactly 0, or a little below 0), and nothing in this theory is
  stated about the value of that branch.
\<close>

definition compute_cs :: "ndarray \<Rightarrow> ndarray \<Rightarrow> real \<Rightarrow> error + npfloat" where
  "compute_cs float_tensor fxp_tensor eps =
     (case validate_before_compute_similarity float_tensor fxp_tensor of
        Inl e \<Rightarrow> Inl e
      | Inr _ \<Rightarrow>
          if list_all (\<lambda>b. b = 0) (data fxp_tensor) \<and> list_all (\<lambda>a. a = 0) (data float_tensor)
          then Inr (Finite 1)
          else
            (let float_flat = data float_tensor;
                 fxp_flat = data fxp_tensor;
                 float_norm = tensor_norm float_tensor 2;
                 fxp_norm = tensor_norm fxp_tensor 2;
                 cs = np_div (Finite (sum_list (map2 (\<lambda>a b. a * b) float_flat fxp_flat)))
                        (Finite (float_norm * fxp_norm + eps))
             in Inr (np_div (np_sub (Finite 1) cs) (Finite 2))))"

definition compute_lp_norm :: "ndarray \<Rightarrow> ndarray \<Rightarrow> int \<Rightarrow> bool \<Rightarrow> real \<Rightarrow> error + npfloat" where
  "compute_lp_norm float_tensor fxp_tensor p do_norm norm_eps =
     (case validate_before_compute_similarity float_tensor fxp_tensor of
        Inl e \<Rightarrow> Inl e
      | Inr _ \<Rightarrow>
          (let error = np_mean (map2 (\<lambda>a b. np_power_abs (a - b) p) (data float_tensor) (data fxp_tensor))
           in if do_norm
              then Inr (np_div error
                     (np_add (np_mean (map (\<lambda>a. np_power_abs a p) (data float_tensor))) (Finite norm_eps)))
              else Inr error))"

section \<open>quantization\_params\_fn\_selection.py\<close>

text \<open>
  Modelled from the spec: the two enumerations \<open>QuantizationMethod\<close> and
  \<open>QuantizationErrorMethod\<close>, which are declared in a module that is not part
  of the source at hand. The error method is one of the five tags of the spec
  (no-clipping, mean-squared-error, mean-absolute-error, Lp-norm,
  KL-divergence), under the names that the dispatch uses. The quantization
  method is one of the five scheme tags of the spec (power-of-two symmetric,
  symmetric, uniform, k-means clustering, lookup-table clustering), or a
  member that the dispatch does not name: the tests of the feature networks
  pass \<open>QuantizationMethod.SYMMETRIC_UNIFORM\<close>, and the last constructor stands
  for such a member.
\<close>

datatype QuantizationMethod =
  POWER_OF_TWO | KMEANS | LUT_QUANTIZER | SYMMETRIC | UNIFORM | OtherQuantizationMethod string

datatype QuantizationErrorMethod =
  NOCLIPPING | MSE | MAE | KL | LP

text \<open>
  The search functions that the dispatch hands out, by name. The value that
  the dispatch returns is one of them or Python's \<open>None\<close>, which is not
  callable: the branch of \<open>POWER_OF_TWO\<close> ends in \<^verbatim>\<open>else: params_fn = None\<close>.
\<close>

datatype params_fn =
  fn_no_clipping_selection_min_max | fn_mse_selection_histogram | fn_mae_selection_histogram
  | fn_lp_selection_histogram | fn_kl_selection_histogram
  | fn_symmetric_selection_histogram | fn_uniform_selection_histogram
  | fn_no_clipping_selection_tensor | fn_mse_selection_tensor | fn_mae_selection_tensor
  | fn_kl_selection_tensor | fn_lp_selection_tensor
  | fn_symmetric_selection_tensor | fn_uniform_selection_tensor
  | fn_kmeans_tensor | fn_lut_kmeans_tensor

text \<open>The exception of the dispatch; the names of the two tags in the message are left out.\<close>

definition no_params_function :: error where
  "no_params_function = Exception ''No params function for the configuration''"

definition get_activation_quantization_params_fn ::
  "QuantizationMethod \<Rightarrow> QuantizationErrorMethod \<Rightarrow> error + params_fn option" where
  "get_activation_quantization_params_fn activation_quantization_method activation_error_method =
     (if activation_quantization_method = POWER_OF_TWO then
        (if activation_error_method = NOCLIPPING then Inr (Some fn_no_clipping_selection_min_max)
         else if activation_error_method = MSE then Inr (Some fn_mse_selection_histogram)
         else if activation_error_method = MAE then Inr (Some fn_mae_selection_histogram)
         else if activation_error_method = LP then Inr (Some fn_lp_selection_histogram)
         else if activation_error_method = KL then Inr (Some fn_kl_selection_histogram)
         else Inr None)
      else if activation_quantization_method = SYMMETRIC then Inr (Some fn_symmetric_selection_histogram)
      else if activation_quantization_method = UNIFORM then Inr (Some fn_uniform_selection_histogram)
      else Inl no_params_function)"

definition get_weights_quantization_params_fn ::
  "QuantizationMethod \<Rightarrow> QuantizationErrorMethod \<Rightarrow> error + params_fn option" where
  "get_weights_quantization_params_fn weights_quantization_method weights_error_method =
     (if weights_quantization_method = POWER_OF_TWO then
        (if weights_error_method = NOCLIPPING then Inr (Some fn_no_clipping_selection_tensor)
         else if weights_error_method = MSE then Inr (Some fn_mse_selection_tensor)
         else if weights_error_method = MAE then Inr (Some fn_mae_selection_tensor)
         else if weights_error_method = KL then Inr (Some fn_kl_selection_tensor)
         else if weights_error_method = LP then Inr (Some fn_lp_selection_tensor)
         else Inr None)
      else if weights_quantization_method = SYMMETRIC then Inr (Some fn_symmetric_selection_tensor)
      else if weights_quantization_method = UNIFORM then Inr (Some fn_uniform_selection_tensor)
      else if weights_quantization_method = KMEANS then Inr (Some fn_kmeans_tensor)
      else if weights_quantization_method = LUT_QUANTIZER then Inr (Some fn_lut_kmeans_tensor)
      else Inl no_params_function)"

section \<open>symmetric\_selection.py\<close>

text \<open>
  A threshold is a float or, per channel, an array; the result of a search is
  the dictionary \<^verbatim>\<open>{THRESHOLD: res}\<close>. The result of an optimizer is read only
  through its field \<^verbatim>\<open>x\<close>, a one-dimensional array.
\<close>

datatype pyvalue = Scalar real | Array ndarray

datatype param_key = THRESHOLD

type_synonym params = "param_key \<rightharpoonup> pyvalue"

record optimize_result =
  res_x :: "real list"

definition array1d :: "real list \<Rightarrow> ndarray" where
  "array1d xs = \<lparr>shape = [length xs], data = xs\<rparr>"

type_synonym tensor_error_fn = "ndarray \<Rightarrow> ndarray \<Rightarrow> real \<Rightarrow> error + npfloat"

type_synonym histogram_error_fn = "real list \<Rightarrow> real list \<Rightarrow> real list \<Rightarrow> real list \<Rightarrow> error + npfloat"

text \<open>
  The functions that the module imports from modules outside the source at
  hand (the optimizers of \<open>qparams_search\<close> and of scipy, the quantizer and the
  bounds of \<open>quantizers_helpers\<close>, the error functions on histograms, and the
  per-channel branch of \<open>get_tensor_max\<close>) are parameters of the model: a
  record of functions, about which nothing is assumed. \<open>'b\<close> is the type of
  the bounds of a search, \<open>'k\<close> that of the function \<open>_kl_error_histogram\<close>,
  which the module only passes on, and \<open>'r\<close> that of the range that a histogram
  error function receives and ignores.
\<close>

record ('b, 'k, 'r) externals =
  get_tensor_max_per_channel :: "ndarray \<Rightarrow> int \<Rightarrow> error + ndarray"
  quantize_tensor :: "ndarray \<Rightarrow> real \<Rightarrow> int \<Rightarrow> bool \<Rightarrow> ndarray"
  get_threshold_bounds :: "real \<Rightarrow> pyvalue \<Rightarrow> 'b"
  kl_error_function :: "ndarray \<Rightarrow> real \<Rightarrow> real \<Rightarrow> int \<Rightarrow> error + npfloat"
  kl_error_histogram :: "'k"
  mse_error_histogram :: histogram_error_fn
  mae_error_histogram :: histogram_error_fn
  lp_error_histogram :: "real list \<Rightarrow> real list \<Rightarrow> real list \<Rightarrow> real list \<Rightarrow> int \<Rightarrow> error + npfloat"
  optimize_minimize ::
    "(real \<Rightarrow> error + npfloat) \<Rightarrow> pyvalue \<Rightarrow> 'b \<Rightarrow> error + optimize_result"
  qparams_tensor_minimization ::
    "ndarray \<Rightarrow> pyvalue \<Rightarrow> tensor_error_fn \<Rightarrow> (real \<Rightarrow> ndarray) \<Rightarrow> 'b \<Rightarrow> error + optimize_result"
  symmetric_qparams_selection_per_channel_search ::
    "ndarray \<Rightarrow> pyvalue \<Rightarrow> int \<Rightarrow> (ndarray \<Rightarrow> pyvalue \<Rightarrow> 'b \<Rightarrow> error + optimize_result)
       \<Rightarrow> real \<Rightarrow> error + pyvalue"
  kl_symmetric_qparams_histogram_minimization ::
    "real list \<Rightarrow> pyvalue \<Rightarrow> real list \<Rightarrow> int \<Rightarrow> bool \<Rightarrow> 'k \<Rightarrow> 'b \<Rightarrow> error + optimize_result"
  qparams_histogram_minimization ::
    "real list \<Rightarrow> pyvalue \<Rightarrow> real list
       \<Rightarrow> (real list \<Rightarrow> real list \<Rightarrow> real list \<Rightarrow> real list \<Rightarrow> real \<Rightarrow> 'r \<Rightarrow> error + npfloat)
       \<Rightarrow> (real \<Rightarrow> ndarray) \<Rightarrow> 'b \<Rightarrow> error + optimize_result"

text \<open>\<^verbatim>\<open>np.any(a < 0)\<close> and \<^verbatim>\<open>np.abs(a)\<close>.\<close>

definition np_any_negative :: "real list \<Rightarrow> bool" where
  "np_any_negative xs = list_ex (\<lambda>v. v < 0) xs"

definition np_abs_array :: "ndarray \<Rightarrow> ndarray" where
  "np_abs_array a = a\<lparr>data := map abs (data a)\<rparr>"

text \<open>\<^verbatim>\<open>np.max\<close> of all elements; numpy raises \<open>ValueError\<close> on an empty array.\<close>

definition np_max :: "real list \<Rightarrow> error + real" where
  "np_max xs = (case xs of [] \<Rightarrow> Inl ValueError | v # vs \<Rightarrow> Inr (fold max vs v))"

text \<open>
  Modelled from the spec: \<open>get_tensor_max\<close> of \<open>quantizers_helpers\<close>, which is not
  in the source at hand. The spec has the no-clipping parameters be the raw
  maximum of the tensor (of its absolute values, which is what the caller
  passes), and one maximum per output channel in per-channel mode; how the
  channels are cut out of the tensor is left to the parameter
  \<open>get_tensor_max_per_channel\<close>.
\<close>

definition get_tensor_max ::
  "('b, 'k, 'r) externals \<Rightarrow> ndarray \<Rightarrow> bool \<Rightarrow> int \<Rightarrow> error + pyvalue" where
  "get_tensor_max E tensor_data per_channel channel_axis =
     (if per_channel then
        (case get_tensor_max_per_channel E tensor_data channel_axis of
           Inl e \<Rightarrow> Inl e | Inr m \<Rightarrow> Inr (Array m))
      else
        (case np_max (data tensor_data) of Inl e \<Rightarrow> Inl e | Inr m \<Rightarrow> Inr (Scalar m)))"

text \<open>
  Python's \<^verbatim>\<open>max(a, b)\<close> returns \<open>b\<close> when \<open>b > a\<close> and \<open>a\<close> otherwise. In
  per-channel mode the maxima are overwritten in place where they are below
  the minimum, which a numpy scalar does not support; without it, the
  comparison of a float with an array of more than one element has no truth
  value (that of an empty array is false). The module itself calls the
  second branch with a scalar maximum only.
\<close>

definition get_init_threshold :: "real \<Rightarrow> pyvalue \<Rightarrow> bool \<Rightarrow> error + pyvalue" where
  "get_init_threshold min_threshold tensor_max per_channel =
     (if per_channel then
        (case tensor_max of
           Array init_t \<Rightarrow>
             Inr (Array (init_t\<lparr>data := map (\<lambda>v. if v < min_threshold then min_threshold else v)
                                          (data init_t)\<rparr>))
         | Scalar _ \<Rightarrow> Inl TypeError)
      else
        (case tensor_max of
           Scalar m \<Rightarrow> Inr (Scalar (if m > min_threshold then m else min_threshold))
         | Array a \<Rightarrow>
             (case data a of
                [] \<Rightarrow> Inr (Scalar min_threshold)
              | [m] \<Rightarrow> Inr (if m > min_threshold then Array a else Scalar min_threshold)
              | _ \<Rightarrow> Inl ValueError)))"

definition get_threshold_selection_tensor_error_function ::
  "QuantizationErrorMethod \<Rightarrow> int \<Rightarrow> bool \<Rightarrow> error + tensor_error_fn" where
  "get_threshold_selection_tensor_error_function quant_error_method p do_norm =
     (let quant_method_error_function_mapping =
        [MSE \<mapsto> (\<lambda>x y t. compute_mse x y do_norm default_eps),
         MAE \<mapsto> (\<lambda>x y t. compute_mae x y do_norm default_eps),
         LP \<mapsto> (\<lambda>x y t. compute_lp_norm x y p do_norm default_eps)]
      in case quant_method_error_function_mapping quant_error_method of
           None \<Rightarrow> Inl KeyError | Some f \<Rightarrow> Inr f)"

definition get_threshold_selection_histogram_error_function ::
  "('b, 'k, 'r) externals \<Rightarrow> QuantizationErrorMethod \<Rightarrow> int
     \<Rightarrow> error + (real list \<Rightarrow> real list \<Rightarrow> real list \<Rightarrow> real list \<Rightarrow> real \<Rightarrow> 'r \<Rightarrow> error + npfloat)" where
  "get_threshold_selection_histogram_error_function E quant_error_method p =
     (let quant_method_error_function_mapping =
        [MSE \<mapsto> (\<lambda>q_bins q_count bins counts threshold range.
                   mse_error_histogram E q_bins q_count bins counts),
         MAE \<mapsto> (\<lambda>q_bins q_count bins counts threshold range.
                   mae_error_histogram E q_bins q_count bins counts),
         LP \<mapsto> (\<lambda>q_bins q_count bins counts threshold range.
                  lp_error_histogram E q_bins q_count bins counts p)]
      in case quant_method_error_function_mapping quant_error_method of
           None \<Rightarrow> Inl KeyError | Some f \<Rightarrow> Inr f)"


text \<open>
  The parameters \<^verbatim>\<open>n_iter\<close> of the two searches and \<^verbatim>\<open>min_value\<close>, \<^verbatim>\<open>max_value\<close>
  and \<^verbatim>\<open>constrained\<close> of the search on a histogram are not used by the source;
  they are kept in the signatures. The variables \<^verbatim>\<open>_x\<close>, \<^verbatim>\<open>_x0\<close> and \<^verbatim>\<open>_y\<close> of
  the source's lambdas are \<open>x\<close>, \<open>x0\<close> and \<open>y\<close> here.
\<close>

definition symmetric_selection_tensor ::
  "('b, 'k, 'r) externals \<Rightarrow> ndarray \<Rightarrow> int \<Rightarrow> int \<Rightarrow> bool \<Rightarrow> int \<Rightarrow> int \<Rightarrow> real
     \<Rightarrow> QuantizationErrorMethod \<Rightarrow> error + params" where
  "symmetric_selection_tensor E tensor_data p n_bits per_channel channel_axis n_iter min_threshold
       quant_error_method =
     (let signed = np_any_negative (data tensor_data);
          unsigned_tensor_data = np_abs_array tensor_data
      in case get_tensor_max E unsigned_tensor_data per_channel channel_axis of
           Inl e \<Rightarrow> Inl e
         | Inr tensor_max \<Rightarrow>
            (case
               (if quant_error_method = NOCLIPPING then
                  get_init_threshold min_threshold tensor_max per_channel
                else if quant_error_method = KL then
                  (if per_channel then
                     (let error_function =
                            (\<lambda>x y threshold. kl_error_function E x (- threshold) threshold n_bits)
                      in symmetric_qparams_selection_per_channel_search E tensor_data tensor_max
                           channel_axis
                           (\<lambda>x x0 bounds.
                              qparams_tensor_minimization E x x0 error_function
                                (\<lambda>threshold. quantize_tensor E x threshold n_bits signed) bounds)
                           min_threshold)
                   else
                     (case get_init_threshold min_threshold tensor_max False of
                        Inl e \<Rightarrow> Inl e
                      | Inr init_threshold \<Rightarrow>
                         (case optimize_minimize E
                                 (\<lambda>threshold. kl_error_function E tensor_data (- threshold) threshold n_bits)
                                 init_threshold
                                 (get_threshold_bounds E min_threshold init_threshold) of
                            Inl e \<Rightarrow> Inl e
                          | Inr res \<Rightarrow> Inr (Array (array1d (res_x res))))))
                else
                  (case get_threshold_selection_tensor_error_function quant_error_method p False of
                     Inl e \<Rightarrow> Inl e
                   | Inr error_function \<Rightarrow>
                      (if per_channel then
                         symmetric_qparams_selection_per_channel_search E tensor_data tensor_max
                           channel_axis
                           (\<lambda>x x0 bounds.
                              qparams_tensor_minimization E x x0 error_function
                                (\<lambda>threshold. quantize_tensor E x threshold n_bits signed) bounds)
                           min_threshold
                       else
                         (case get_init_threshold min_threshold tensor_max False of
                            Inl e \<Rightarrow> Inl e
                          | Inr init_threshold \<Rightarrow>
                             (case qparams_tensor_minimization E tensor_data init_threshold error_function
                                     (\<lambda>threshold. quantize_tensor E tensor_data threshold n_bits signed)
                                     (get_threshold_bounds E min_threshold init_threshold) of
                                Inl e \<Rightarrow> Inl e
                              | Inr res \<Rightarrow> Inr (Array (array1d (res_x res))))))))
             of
               Inl e \<Rightarrow> Inl e
             | Inr res \<Rightarrow> Inr [THRESHOLD \<mapsto> res]))"

text \<open>
  \<^verbatim>\<open>np.abs(bins)[1:][counts > 0]\<close>: the boolean index must be as long as the
  array that it indexes, or numpy raises \<open>IndexError\<close>.
\<close>

definition boolean_index :: "real list \<Rightarrow> bool list \<Rightarrow> error + real list" where
  "boolean_index xs selector =
     (if length selector = length xs then Inr (map fst (filter snd (zip xs selector)))
      else Inl IndexError)"

text \<open>\<^verbatim>\<open>res.x[0]\<close>\<close>

definition first_of_x :: "optimize_result \<Rightarrow> error + pyvalue" where
  "first_of_x res = (case res_x res of [] \<Rightarrow> Inl IndexError | v # _ \<Rightarrow> Inr (Scalar v))"

definition symmetric_selection_histogram ::
  "('b, 'k, 'r) externals \<Rightarrow> real list \<Rightarrow> real list \<Rightarrow> int \<Rightarrow> int \<Rightarrow> real \<Rightarrow> real \<Rightarrow> bool \<Rightarrow> int
     \<Rightarrow> real \<Rightarrow> QuantizationErrorMethod \<Rightarrow> error + params" where
  "symmetric_selection_histogram E bins counts p n_bits min_value max_value constrained n_iter
       min_threshold quant_error_method =
     (case boolean_index (tl (map abs bins)) (map (\<lambda>c. c > 0) counts) of
        Inl e \<Rightarrow> Inl e
      | Inr selected \<Rightarrow>
     (case np_max selected of
        Inl e \<Rightarrow> Inl e
      | Inr m \<Rightarrow>
         (let tensor_max = Scalar m;
              signed = np_any_negative bins
          in case
               (if quant_error_method = NOCLIPPING then
                  get_init_threshold min_threshold tensor_max False
                else if quant_error_method = KL then
                  (case get_init_threshold min_threshold tensor_max False of
                     Inl e \<Rightarrow> Inl e
                   | Inr init_threshold \<Rightarrow>
                      (case kl_symmetric_qparams_histogram_minimization E bins tensor_max counts n_bits
                              signed (kl_error_histogram E)
                              (get_threshold_bounds E min_threshold init_threshold) of
                         Inl e \<Rightarrow> Inl e
                       | Inr res \<Rightarrow> first_of_x res))
                else
                  (case get_init_threshold min_threshold tensor_max False of
                     Inl e \<Rightarrow> Inl e
                   | Inr init_threshold \<Rightarrow>
                      (case get_threshold_selection_histogram_error_function E quant_error_method p of
                         Inl e \<Rightarrow> Inl e
                       | Inr error_function \<Rightarrow>
                          (case qparams_histogram_minimization E bins tensor_max counts error_function
                                  (\<lambda>threshold. quantize_tensor E (array1d bins) threshold n_bits signed)
                                  (get_threshold_bounds E min_threshold init_threshold) of
                             Inl e \<Rightarrow> Inl e
                           | Inr res \<Rightarrow> first_of_x res))))
             of
               Inl e \<Rightarrow> Inl e
             | Inr res \<Rightarrow> Inr [THRESHOLD \<mapsto> res])))"

text \<open>
  The histogram of the two values alone: \<^verbatim>\<open>np.asarray([min_value, max_value])\<close>
  with the dummy counts \<^verbatim>\<open>np.asarray([1])\<close>, and always \<open>NOCLIPPING\<close>, whatever
  the error method of the call.
\<close>

definition symmetric_no_clipping_selection_min_max ::
  "('b, 'k, 'r) externals \<Rightarrow> real list \<Rightarrow> real list \<Rightarrow> int \<Rightarrow> int \<Rightarrow> real \<Rightarrow> real \<Rightarrow> bool \<Rightarrow> int
     \<Rightarrow> real \<Rightarrow> QuantizationErrorMethod \<Rightarrow> error + params" where
  "symmetric_no_clipping_selection_min_max E bins counts p n_bits min_value max_value constrained
       n_iter min_threshold quant_error_method =
     symmetric_selection_histogram E [min_value, max_value] [1] p n_bits min_value max_value
       constrained n_iter min_threshold NOCLIPPING"

text \<open>
  A stand-in for the external functions, to run the searches on concrete
  inputs: every element is its own channel, the quantizer only clips to the
  range of the grid (from \<open>-threshold\<close> when the grid is signed, from 0
  otherwise), and each optimizer makes one call of what it is given, at the
  threshold 1.
\<close>

definition example_externals :: "(real \<times> real, unit, unit) externals" where
  "example_externals =
     \<lparr>get_tensor_max_per_channel = (\<lambda>t axis. Inr t),
      quantize_tensor =
        (\<lambda>a threshold n_bits signed.
           a\<lparr>data := map (\<lambda>v. max (if signed then - threshold else 0) (min threshold v)) (data a)\<rparr>),
      get_threshold_bounds = (\<lambda>min_threshold init. (min_threshold, 4)),
      kl_error_function = (\<lambda>a range_min range_max n_bits. Inr (Finite 0)),
      kl_error_histogram = (),
      mse_error_histogram = (\<lambda>q_bins q_count bins counts. Inr (Finite 0)),
      mae_error_histogram = (\<lambda>q_bins q_count bins counts. Inr (Finite 0)),
      lp_error_histogram = (\<lambda>q_bins q_count bins counts p. Inr (Finite 0)),
      optimize_minimize = (\<lambda>f x0 bounds. Inr \<lparr>res_x = [1]\<rparr>),
      qparams_tensor_minimization =
        (\<lambda>a x0 error_function quant_function bounds. Inr \<lparr>res_x = data (quant_function 1)\<rparr>),
      symmetric_qparams_selection_per_channel_search =
        (\<lambda>a tensor_max channel_axis search_function min_threshold.
           case search_function a tensor_max (min_threshold, 4) of
             Inl e \<Rightarrow> Inl e
           | Inr res \<Rightarrow> Inr (Array (array1d (res_x res)))),
      kl_symmetric_qparams_histogram_minimization =
        (\<lambda>bins tensor_max counts n_bits signed error_function bounds.
           Inr \<lparr>res_x = [if signed then 1 else 0]\<rparr>),
      qparams_histogram_minimization =
        (\<lambda>bins tensor_max counts error_function quant_function bounds.
           Inr \<lparr>res_x = data (quant_function 1)\<rparr>)\<rparr>"


section \<open>set\_node\_quantization\_config.py\<close>

text \<open>
  Modelled from the spec: the configuration classes, which are declared
  outside the source at hand, with the fields that this module reads and
  writes. A \<open>QuantizationConfig\<close> is mixed-precision when it is an instance of
  \<open>MixedPrecisionQuantizationConfig\<close>; its \<open>weights_n_bits\<close> is then the declared
  list of bit-widths, and a single bit-width otherwise and in the copy that
  is made for one candidate. A node's candidate for the weights is the
  spec's tuple of a bit-width, what quantizes, and an enabled flag.
\<close>

datatype n_bits_value = NBits int | NBitsList "int list"

record QuantizationConfig =
  is_mixed_precision :: bool
  activation_threshold_method :: QuantizationErrorMethod
  weights_threshold_method :: QuantizationErrorMethod
  activation_quantization_method :: QuantizationMethod
  weights_quantization_method :: QuantizationMethod
  enable_activation_quantization :: bool
  enable_weights_quantization :: bool
  weights_n_bits :: n_bits_value

record 'q NodeActivationQuantizationConfig =
  activation_quantization_fn :: 'q
  activation_quantization_params_fn :: "params_fn option"
  node_enable_activation_quantization :: bool

record 'q NodeWeightsQuantizationConfig =
  candidate_weights_n_bits :: n_bits_value
  weights_quantization_fn :: 'q
  weights_quantization_params_fn :: "params_fn option"
  weights_channels_axis :: "int option"
  node_enable_weights_quantization :: bool

text \<open>
  A node of the graph, with its type (\<^verbatim>\<open>node.type\<close>) and the two attributes that
  this module sets; \<open>None\<close> is an attribute that is not set yet.
\<close>

record ('q, 't) BaseNode =
  node_name :: string
  node_type :: 't
  activation_quantization_cfg :: "'q NodeActivationQuantizationConfig option"
  candidates_weights_quantization_cfg :: "'q NodeWeightsQuantizationConfig list option"

text \<open>
  What the module asks of the framework information: the two dictionaries
  from a quantization method to a quantizer, the dictionary from the type of
  a node to the channel axes of its kernel, and the two tests on a node.
\<close>

record ('q, 't) FrameworkInfo =
  activation_quantizer_mapping :: "QuantizationMethod \<rightharpoonup> 'q"
  weights_quantizer_mapping :: "QuantizationMethod \<rightharpoonup> 'q"
  kernel_channels_mapping :: "'t \<rightharpoonup> int option list"
  in_activation_ops :: "('q, 't) BaseNode \<Rightarrow> bool"
  in_kernel_ops :: "('q, 't) BaseNode \<Rightarrow> bool"

text \<open>
  Nodes are objects: the store is the list of all node objects, and the
  address of a node is its index. A graph holds the addresses of its nodes.
  \<^verbatim>\<open>copy.deepcopy(graph)\<close> allocates a copy of every node of the graph behind the
  objects that exist, and returns the graph of the copies.
\<close>

type_synonym ('q, 't) store = "('q, 't) BaseNode list"

record Graph =
  nodes :: "nat list"

definition wf_graph :: "('q, 't) store \<Rightarrow> Graph \<Rightarrow> bool" where
  "wf_graph h graph = (distinct (nodes graph) \<and> list_all (\<lambda>a. a < length h) (nodes graph))"

definition deepcopy_graph :: "('q, 't) store \<Rightarrow> Graph \<Rightarrow> ('q, 't) store \<times> Graph" where
  "deepcopy_graph h graph =
     (h @ map (\<lambda>a. h ! a) (nodes graph),
      \<lparr>nodes = [length h ..< length h + length (nodes graph)]\<rparr>)"

text \<open>
  Modelled from the spec: \<open>Logger.critical\<close>, of a logger that is not in the
  source at hand. An unknown quantization method is a configuration error of
  the spec, which fails at once: the call logs the message and raises.
\<close>

definition Logger_critical :: "string \<Rightarrow> error" where
  "Logger_critical msg = Exception msg"

definition create_node_activation_qc ::
  "QuantizationConfig \<Rightarrow> ('q, 't) FrameworkInfo \<Rightarrow> error + 'q NodeActivationQuantizationConfig" where
  "create_node_activation_qc qc fw_info =
     (case activation_quantizer_mapping fw_info (activation_quantization_method qc) of
        None \<Rightarrow> Inl (Logger_critical ''Unknown quantization method for activations'')
      | Some activation_quantization_fn' \<Rightarrow>
         (case get_activation_quantization_params_fn (activation_quantization_method qc)
                 (activation_threshold_method qc) of
            Inl e \<Rightarrow> Inl e
          | Inr activation_quantization_params_fn' \<Rightarrow>
             Inr \<lparr>activation_quantization_fn = activation_quantization_fn',
                  activation_quantization_params_fn = activation_quantization_params_fn',
                  node_enable_activation_quantization = enable_activation_quantization qc\<rparr>))"

definition create_node_weights_qc ::
  "QuantizationConfig \<Rightarrow> ('q, 't) FrameworkInfo \<Rightarrow> int option
     \<Rightarrow> error + 'q NodeWeightsQuantizationConfig" where
  "create_node_weights_qc qc fw_info weight_channel_axis =
     (case weights_quantizer_mapping fw_info (weights_quantization_method qc) of
        None \<Rightarrow> Inl (Logger_critical ''Unknown quantization method for weights'')
      | Some weights_quantization_fn' \<Rightarrow>
         (case get_weights_quantization_params_fn (weights_quantization_method qc)
                 (weights_threshold_method qc) of
            Inl e \<Rightarrow> Inl e
          | Inr weights_quantization_params_fn' \<Rightarrow>
             Inr \<lparr>candidate_weights_n_bits = weights_n_bits qc,
                  weights_quantization_fn = weights_quantization_fn',
                  weights_quantization_params_fn = weights_quantization_params_fn',
                  weights_channels_axis = weight_channel_axis,
                  node_enable_weights_quantization = enable_weights_quantization qc\<rparr>))"

text \<open>
  The loop over the bit-widths: a deep copy of the configuration with the one
  bit-width for each, in the order of the list, up to the first exception.
\<close>

fun candidates_of_n_bits ::
  "QuantizationConfig \<Rightarrow> ('q, 't) FrameworkInfo \<Rightarrow> int option \<Rightarrow> int list
     \<Rightarrow> error + 'q NodeWeightsQuantizationConfig list" where
  "candidates_of_n_bits qc fw_info weight_channel_axis [] = Inr []"
| "candidates_of_n_bits qc fw_info weight_channel_axis (nbits # rest) =
     (let single_nbits_qc = qc\<lparr>weights_n_bits := NBits nbits\<rparr>
      in case create_node_weights_qc single_nbits_qc fw_info weight_channel_axis of
           Inl e \<Rightarrow> Inl e
         | Inr candidate \<Rightarrow>
            (case candidates_of_n_bits qc fw_info weight_channel_axis rest of
               Inl e \<Rightarrow> Inl e
             | Inr candidats \<Rightarrow> Inr (candidate # candidats)))"

text \<open>
  \<^verbatim>\<open>_create_node_candidates_weights_qc\<close>. The list of bit-widths is sorted in
  place, in descending order, so the configuration of the caller changes:
  the function returns it next to its result. A configuration whose
  \<open>weights_n_bits\<close> is not a list has no \<^verbatim>\<open>sort\<close>.
\<close>

definition create_node_candidates_weights_qc ::
  "QuantizationConfig \<Rightarrow> ('q, 't) FrameworkInfo \<Rightarrow> int option
     \<Rightarrow> QuantizationConfig \<times> (error + 'q NodeWeightsQuantizationConfig list)" where
  "create_node_candidates_weights_qc qc fw_info weight_channel_axis =
     (if is_mixed_precision qc then
        (case weights_n_bits qc of
           NBitsList l \<Rightarrow>
             (let qc' = qc\<lparr>weights_n_bits := NBitsList (rev (sort l))\<rparr>
              in (qc', candidates_of_n_bits qc' fw_info weight_channel_axis (rev (sort l))))
         | NBits _ \<Rightarrow> (qc, Inl AttributeError))
      else
        (qc, case create_node_weights_qc qc fw_info weight_channel_axis of
               Inl e \<Rightarrow> Inl e
             | Inr candidate \<Rightarrow> Inr [candidate]))"

text \<open>
  The node object is changed in place, so the node and the configuration as
  they are when the function returns or raises are part of the result.
  \<^verbatim>\<open>kernel_channels_mapping.get(node.type)[0]\<close> raises when the type has no
  entry, or an empty one.
\<close>

definition set_quantization_configs_to_node ::
  "('q, 't) BaseNode \<Rightarrow> QuantizationConfig \<Rightarrow> ('q, 't) FrameworkInfo
     \<Rightarrow> ('q, 't) BaseNode \<times> QuantizationConfig \<times> (error + unit)" where
  "set_quantization_configs_to_node node quant_config fw_info =
     (case create_node_activation_qc quant_config fw_info of
        Inl e \<Rightarrow> (node, quant_config, Inl e)
      | Inr cfg \<Rightarrow>
         (let node1 = node\<lparr>activation_quantization_cfg := Some cfg\<rparr>;
              enable_activation_quantization' =
                (enable_activation_quantization quant_config \<and>
                 (in_activation_ops fw_info node1 \<or> in_kernel_ops fw_info node1));
              node2 = node1\<lparr>activation_quantization_cfg :=
                        Some (cfg\<lparr>node_enable_activation_quantization :=
                                     enable_activation_quantization'\<rparr>)\<rparr>
          in case kernel_channels_mapping fw_info (node_type node2) of
               None \<Rightarrow> (node2, quant_config, Inl TypeError)
             | Some [] \<Rightarrow> (node2, quant_config, Inl IndexError)
             | Some (weight_channel_axis # _) \<Rightarrow>
                (case create_node_candidates_weights_qc quant_config fw_info weight_channel_axis of
                   (quant_config', Inl e) \<Rightarrow> (node2, quant_config', Inl e)
                 | (quant_config', Inr candidates) \<Rightarrow>
                    (let node3 = node2\<lparr>candidates_weights_quantization_cfg := Some candidates\<rparr>;
                         enable_weights_quantization' =
                           (enable_weights_quantization quant_config' \<and> in_kernel_ops fw_info node3)
                     in (node3\<lparr>candidates_weights_quantization_cfg :=
                                  Some (map (\<lambda>qc. qc\<lparr>node_enable_weights_quantization :=
                                                         enable_weights_quantization'\<rparr>)
                                          candidates)\<rparr>,
                         quant_config', Inr ())))))"

text \<open>The loop over the nodes of the copy, up to the first exception.\<close>

fun set_quantization_configs_to_nodes ::
  "('q, 't) store \<Rightarrow> nat list \<Rightarrow> QuantizationConfig \<Rightarrow> ('q, 't) FrameworkInfo
     \<Rightarrow> ('q, 't) store \<times> QuantizationConfig \<times> (error + unit)" where
  "set_quantization_configs_to_nodes h [] quant_config fw_info = (h, quant_config, Inr ())"
| "set_quantization_configs_to_nodes h (n # ns) quant_config fw_info =
     (case set_quantization_configs_to_node (h ! n) quant_config fw_info of
        (node', quant_config', Inl e) \<Rightarrow> (h[n := node'], quant_config', Inl e)
      | (node', quant_config', Inr _) \<Rightarrow>
          set_quantization_configs_to_nodes (h[n := node']) ns quant_config' fw_info)"

definition set_quantization_configuration_to_graph ::
  "('q, 't) store \<Rightarrow> Graph \<Rightarrow> QuantizationConfig \<Rightarrow> ('q, 't) FrameworkInfo
     \<Rightarrow> ('q, 't) store \<times> QuantizationConfig \<times> (error + Graph)" where
  "set_quantization_configuration_to_graph h graph quant_config fw_info =
     (case deepcopy_graph h graph of
        (h1, graph_with_qcs) \<Rightarrow>
          (case set_quantization_configs_to_nodes h1 (nodes graph_with_qcs) quant_config fw_info of
             (h2, quant_config', Inl e) \<Rightarrow> (h2, quant_config', Inl e)
           | (h2, quant_config', Inr _) \<Rightarrow> (h2, quant_config', Inr graph_with_qcs)))"

text \<open>
  A framework information and a configuration to run the module on: quantizers
  and node types are named by strings, \<open>Conv2D\<close> is the one kernel operation
  and \<open>ReLU\<close> the one activation operation.
\<close>

definition example_framework_info :: "(string, string) FrameworkInfo" where
  "example_framework_info =
     \<lparr>activation_quantizer_mapping = [POWER_OF_TWO \<mapsto> ''power_of_two_quantization''],
      weights_quantizer_mapping = [POWER_OF_TWO \<mapsto> ''power_of_two_quantizer''],
      kernel_channels_mapping = [''Conv2D'' \<mapsto> [Some 3, Some 2], ''ReLU'' \<mapsto> [None, None]],
      in_activation_ops = (\<lambda>n. node_type n = ''ReLU''),
      in_kernel_ops = (\<lambda>n. node_type n = ''Conv2D'')\<rparr>"

definition example_config :: "bool \<Rightarrow> n_bits_value \<Rightarrow> QuantizationConfig" where
  "example_config mixed n_bits =
     \<lparr>is_mixed_precision = mixed,
      activation_threshold_method = MSE,
      weights_threshold_method = MSE,
      activation_quantization_method = POWER_OF_TWO,
      weights_quantization_method = POWER_OF_TWO,
      enable_activation_quantization = True,
      enable_weights_quantization = True,
      weights_n_bits = n_bits\<rparr>"

text \<open>A store of two nodes without configurations, and the graph of the two.\<close>

definition example_store :: "(string, string) store" where
  "example_store =
     [\<lparr>node_name = ''conv'', node_type = ''Conv2D'',
       activation_quantization_cfg = None, candidates_weights_quantization_cfg = None\<rparr>,
      \<lparr>node_name = ''relu'', node_type = ''ReLU'',
       activation_quantization_cfg = None, candidates_weights_quantization_cfg = None\<rparr>]"

definition example_graph :: Graph where
  "example_graph = \<lparr>nodes = [0, 1]\<rparr>"

section \<open>Properties of the similarity functions\<close>

subsection \<open>Sums and means of finite elements\<close>

lemma foldl_np_add_Finite:
  "foldl np_add (Finite s) (map Finite xs) = Finite (s + sum_list xs)"
  by (induction xs arbitrary: s) (simp_all add: add.assoc)

lemma np_sum_Finite: "np_sum (map Finite xs) = Finite (sum_list xs)"
  by (simp add: np_sum_def foldl_np_add_Finite)

lemma np_mean_Finite:
  "np_mean (map Finite xs) = (if xs = [] then NaN else Finite (sum_list xs / real (length xs)))"
  by (simp add: np_mean_def np_sum_Finite)

lemma map2_same: "map2 f xs xs = map (\<lambda>a. f a a) xs"
  by (induction xs) simp_all

subsection \<open>Cosine distance\<close>

text \<open>
  Claim C5. When both tensors have the same shape and are identically zero,
  \<open>compute_cs\<close> returns exactly \<open>1.0\<close>, not \<open>0.0\<close>.
\<close>

theorem compute_cs_all_zero:
  "shape float_tensor = shape fxp_tensor \<Longrightarrow>
   list_all (\<lambda>a. a = 0) (data float_tensor) \<Longrightarrow> list_all (\<lambda>b. b = 0) (data fxp_tensor) \<Longrightarrow>
   compute_cs float_tensor fxp_tensor eps = Inr (Finite 1) \<and>
   compute_cs float_tensor fxp_tensor eps \<noteq> Inr (Finite 0)"
  by (simp add: compute_cs_def validate_before_compute_similarity_def)

text \<open>Claim C5 at two zero vectors of length 2.\<close>

theorem compute_cs_all_zero_witness:
  "shape \<lparr>shape = [2], data = [0, 0]\<rparr> = shape \<lparr>shape = [2], data = [0, 0]\<rparr> \<and>
   list_all (\<lambda>a. a = 0) (data \<lparr>shape = [2], data = [0, 0]\<rparr>) \<and>
   compute_cs \<lparr>shape = [2], data = [0, 0]\<rparr> \<lparr>shape = [2], data = [0, 0]\<rparr> default_eps = Inr (Finite 1)"
  using compute_cs_all_zero
    [of "\<lparr>shape = [2], data = [0, 0]\<rparr>" "\<lparr>shape = [2], data = [0, 0]\<rparr>" default_eps]
  by simp

subsection \<open>Shape validation\<close>

text \<open>
  Claim C6. When the shapes of the two arrays differ, each of the six
  similarity functions raises the assertion error of
  \<open>validate_before_compute_similarity\<close>; none of them returns a distance,
  so the operands are never broadcast.
\<close>

theorem shape_mismatch_rejected:
  "shape float_tensor \<noteq> shape fxp_tensor \<Longrightarrow>
   compute_mse float_tensor fxp_tensor do_norm norm_eps = Inl AssertionError \<and>
   compute_mae float_tensor fxp_tensor do_norm norm_eps = Inl AssertionError \<and>
   compute_cs float_tensor fxp_tensor eps = Inl AssertionError \<and>
   compute_lp_norm float_tensor fxp_tensor p do_norm norm_eps = Inl AssertionError \<and>
   compute_nmse float_tensor fxp_tensor = Inl AssertionError \<and>
   compute_nmae float_tensor fxp_tensor = Inl AssertionError"
  by (simp add: compute_mse_def compute_mae_def compute_cs_def compute_lp_norm_def
      compute_nmse_def compute_nmae_def validate_before_compute_similarity_def)

text \<open>
  Claim C6 at the shapes \<open>(2,)\<close> and \<open>(1,)\<close>, which numpy arithmetic alone would
  broadcast.
\<close>

theorem shape_mismatch_rejected_witness:
  "shape \<lparr>shape = [2], data = [1, 2]\<rparr> \<noteq> shape \<lparr>shape = [1], data = [5]\<rparr> \<and>
   compute_mse \<lparr>shape = [2], data = [1, 2]\<rparr> \<lparr>shape = [1], data = [5]\<rparr> False default_eps
     = Inl AssertionError \<and>
   compute_mae \<lparr>shape = [2], data = [1, 2]\<rparr> \<lparr>shape = [1], data = [5]\<rparr> False default_eps
     = Inl AssertionError \<and>
   compute_cs \<lparr>shape = [2], data = [1, 2]\<rparr> \<lparr>shape = [1], data = [5]\<rparr> default_eps
     = Inl AssertionError \<and>
   compute_lp_norm \<lparr>shape = [2], data = [1, 2]\<rparr> \<lparr>shape = [1], data = [5]\<rparr> 2 False default_eps
     = Inl AssertionError \<and>
   compute_nmse \<lparr>shape = [2], data = [1, 2]\<rparr> \<lparr>shape = [1], data = [5]\<rparr> = Inl AssertionError \<and>
   compute_nmae \<lparr>shape = [2], data = [1, 2]\<rparr> \<lparr>shape = [1], data = [5]\<rparr> = Inl AssertionError"
  using shape_mismatch_rejected
    [of "\<lparr>shape = [2], data = [1, 2]\<rparr>" "\<lparr>shape = [1], data = [5]\<rparr>" False default_eps default_eps 2]
  by simp

subsection \<open>Distance of a tensor to itself\<close>

text \<open>
  Claim C7, as stated, fails on the empty tensor: the mean of an empty array
  is \<open>nan\<close>, so neither function returns 0 there.
\<close>

theorem compute_mse_mae_empty_not_zero:
  "compute_mse \<lparr>shape = [0], data = []\<rparr> \<lparr>shape = [0], data = []\<rparr> False default_eps
     \<noteq> Inr (Finite 0) \<and>
   compute_mae \<lparr>shape = [0], data = []\<rparr> \<lparr>shape = [0], data = []\<rparr> False default_eps
     \<noteq> Inr (Finite 0)"
  by (simp add: compute_mse_def compute_mae_def validate_before_compute_similarity_def
      np_mean_def np_sum_def)

lemma np_mean_zeros: "xs \<noteq> [] \<Longrightarrow> np_mean (map (\<lambda>a. Finite 0) xs) = Finite 0"
proof -
  assume ne: "xs \<noteq> []"
  have "map (\<lambda>a. Finite 0) xs = map Finite (map (\<lambda>a. 0) xs)" by simp
  then show ?thesis using ne by (simp only: np_mean_Finite) simp
qed

text \<open>
  Claim C7, amended. For every tensor \<open>x\<close> with at least one element,
  \<open>compute_mse(x, x)\<close> and \<open>compute_mae(x, x)\<close> return 0 when normalization is
  disabled.
\<close>

theorem compute_mse_mae_same_tensor:
  "data x \<noteq> [] \<Longrightarrow>
   compute_mse x x False norm_eps = Inr (Finite 0) \<and>
   compute_mae x x False norm_eps = Inr (Finite 0)"
  by (simp add: compute_mse_def compute_mae_def validate_before_compute_similarity_def
      map2_same np_mean_zeros)

text \<open>The amended claim C7 at the tensor \<open>[1, -2, 3]\<close>.\<close>

theorem compute_mse_mae_same_tensor_witness:
  "data \<lparr>shape = [3], data = [1, - 2, 3]\<rparr> \<noteq> [] \<and>
   compute_mse \<lparr>shape = [3], data = [1, - 2, 3]\<rparr> \<lparr>shape = [3], data = [1, - 2, 3]\<rparr> False default_eps
     = Inr (Finite 0) \<and>
   compute_mae \<lparr>shape = [3], data = [1, - 2, 3]\<rparr> \<lparr>shape = [3], data = [1, - 2, 3]\<rparr> False default_eps
     = Inr (Finite 0)"
  using compute_mse_mae_same_tensor [of "\<lparr>shape = [3], data = [1, - 2, 3]\<rparr>" default_eps]
  by simp

section \<open>Properties of the dispatch\<close>

text \<open>
  Claim C1. For every quantization method and every error method: when the
  method is none of those that a dispatch function names, the function raises
  its configuration error, and it takes no data, so this is before any
  search; when the method is one of them, the function returns a search
  function. In neither case does it return \<open>None\<close>: the branch of
  \<open>POWER_OF_TWO\<close> that would is taken by none of the five error methods.
\<close>

theorem dispatch_raises_or_returns_function:
  "(m \<notin> {POWER_OF_TWO, SYMMETRIC, UNIFORM, KMEANS, LUT_QUANTIZER} \<longrightarrow>
      get_weights_quantization_params_fn m e = Inl no_params_function) \<and>
   (m \<notin> {POWER_OF_TWO, SYMMETRIC, UNIFORM} \<longrightarrow>
      get_activation_quantization_params_fn m e = Inl no_params_function) \<and>
   (m \<in> {POWER_OF_TWO, SYMMETRIC, UNIFORM, KMEANS, LUT_QUANTIZER} \<longrightarrow>
      (\<exists>f. get_weights_quantization_params_fn m e = Inr (Some f))) \<and>
   (m \<in> {POWER_OF_TWO, SYMMETRIC, UNIFORM} \<longrightarrow>
      (\<exists>f. get_activation_quantization_params_fn m e = Inr (Some f))) \<and>
   get_weights_quantization_params_fn m e \<noteq> Inr None \<and>
   get_activation_quantization_params_fn m e \<noteq> Inr None"
  by (cases e)
     (auto simp: get_weights_quantization_params_fn_def get_activation_quantization_params_fn_def)

text \<open>
  Claim C1 at the method \<open>SYMMETRIC_UNIFORM\<close>, which no branch names, at
  \<open>KMEANS\<close>, which only the dispatch for weights names, and at \<open>POWER_OF_TWO\<close>
  with \<open>MSE\<close>.
\<close>

theorem dispatch_raises_or_returns_function_witness:
  "OtherQuantizationMethod ''SYMMETRIC_UNIFORM'' \<notin> {POWER_OF_TWO, SYMMETRIC, UNIFORM, KMEANS, LUT_QUANTIZER} \<and>
   get_weights_quantization_params_fn (OtherQuantizationMethod ''SYMMETRIC_UNIFORM'') MSE
     = Inl no_params_function \<and>
   get_activation_quantization_params_fn (OtherQuantizationMethod ''SYMMETRIC_UNIFORM'') MSE
     = Inl no_params_function \<and>
   KMEANS \<notin> {POWER_OF_TWO, SYMMETRIC, UNIFORM} \<and>
   KMEANS \<in> {POWER_OF_TWO, SYMMETRIC, UNIFORM, KMEANS, LUT_QUANTIZER} \<and>
   get_activation_quantization_params_fn KMEANS MSE = Inl no_params_function \<and>
   (\<exists>f. get_weights_quantization_params_fn KMEANS MSE = Inr (Some f)) \<and>
   POWER_OF_TWO \<in> {POWER_OF_TWO, SYMMETRIC, UNIFORM} \<and>
   (\<exists>f. get_weights_quantization_params_fn POWER_OF_TWO MSE = Inr (Some f)) \<and>
   (\<exists>f. get_activation_quantization_params_fn POWER_OF_TWO MSE = Inr (Some f)) \<and>
   get_weights_quantization_params_fn POWER_OF_TWO KL \<noteq> Inr None \<and>
   get_activation_quantization_params_fn POWER_OF_TWO KL \<noteq> Inr None"
  using dispatch_raises_or_returns_function [of "OtherQuantizationMethod ''SYMMETRIC_UNIFORM''" MSE]
    dispatch_raises_or_returns_function [of KMEANS MSE]
    dispatch_raises_or_returns_function [of POWER_OF_TWO MSE]
    dispatch_raises_or_returns_function [of POWER_OF_TWO KL]
  by simp

section \<open>Properties of the symmetric threshold selection\<close>

subsection \<open>No clipping\<close>

lemma np_max_nonempty: "xs \<noteq> [] \<Longrightarrow> np_max xs = Inr (Max (set xs))"
proof (cases xs)
  case Nil
  assume "xs \<noteq> []"
  with Nil show ?thesis by simp
next
  case (Cons v vs)
  have "fold max vs v = Max (set (v # vs))" by (rule Max.set_eq_fold [symmetric])
  with Cons show ?thesis by (simp add: np_max_def)
qed

lemma python_max_eq_max: "(if (m::real) > t then m else t) = max t m"
  by (simp add: max_def)

text \<open>
  Claim C2. For a tensor with at least one element, any minimal threshold and
  the error method \<open>NOCLIPPING\<close>, without per-channel thresholds,
  \<open>symmetric_selection_tensor\<close> returns the threshold
  \<open>max(min_threshold, max(abs(tensor)))\<close>, whatever the external functions are.
\<close>

theorem symmetric_selection_tensor_no_clipping:
  "data tensor_data \<noteq> [] \<Longrightarrow>
   symmetric_selection_tensor E tensor_data p n_bits False channel_axis n_iter min_threshold NOCLIPPING
     = Inr [THRESHOLD \<mapsto> Scalar (max min_threshold (Max (abs ` set (data tensor_data))))]"
  by (simp add: symmetric_selection_tensor_def get_tensor_max_def np_abs_array_def
      np_max_nonempty get_init_threshold_def python_max_eq_max)

text \<open>Claim C2 at the tensor \<open>[-10, -5, 0, 5, 10]\<close> of the spec: the threshold is 10.\<close>

theorem symmetric_selection_tensor_no_clipping_witness:
  "data \<lparr>shape = [5], data = [- 10, - 5, 0, 5, 10]\<rparr> \<noteq> [] \<and>
   symmetric_selection_tensor example_externals \<lparr>shape = [5], data = [- 10, - 5, 0, 5, 10]\<rparr>
       2 8 False 1 10 (1 / 2 ^ 28) NOCLIPPING
     = Inr [THRESHOLD \<mapsto> Scalar 10]"
  using symmetric_selection_tensor_no_clipping
    [of "\<lparr>shape = [5], data = [- 10, - 5, 0, 5, 10]\<rparr>" example_externals 2 8 1 10 "1 / 2 ^ 28"]
  by simp

text \<open>
  Claim C10. For every pair of a minimal and a maximal value,
  \<open>symmetric_no_clipping_selection_min_max\<close> returns the threshold
  \<open>max(min_threshold, abs(max_value))\<close>: the first edge, \<open>min_value\<close>, is cut off
  before the maximum is taken, so that the range from -10 to 5 has the
  threshold 5 (or the minimal threshold, when that is larger), not 10. The
  sign flag is still computed from both values.
\<close>

theorem symmetric_no_clipping_selection_min_max_threshold:
  "symmetric_no_clipping_selection_min_max E bins counts p n_bits min_value max_value constrained
       n_iter min_threshold quant_error_method
     = Inr [THRESHOLD \<mapsto> Scalar (max min_threshold \<bar>max_value\<bar>)] \<and>
   symmetric_no_clipping_selection_min_max E bins counts p n_bits (- 10) 5 constrained
       n_iter min_threshold quant_error_method
     = Inr [THRESHOLD \<mapsto> Scalar (max min_threshold 5)] \<and>
   (np_any_negative [min_value, max_value] \<longleftrightarrow> min_value < 0 \<or> max_value < 0)"
  by (simp add: symmetric_no_clipping_selection_min_max_def symmetric_selection_histogram_def
      boolean_index_def np_max_def get_init_threshold_def python_max_eq_max np_any_negative_def)

subsection \<open>Signedness\<close>

lemma np_any_negative_iff: "np_any_negative xs \<longleftrightarrow> (\<exists>v\<in>set xs. v < 0)"
  by (simp add: np_any_negative_def list_ex_iff)

text \<open>
  Claim C3. The sign flag of a search is true exactly when some element of
  the tensor, or some bin edge of the histogram, is strictly negative. It is
  one flag for the whole tensor or histogram: every quantizer that the
  search hands to an optimizer, also the one that it hands to the per-channel
  search to be used on each channel, quantizes with this flag. Said as an
  equation: the search is unchanged when the external quantizer (and the
  KL minimization on a histogram, which gets the flag directly) ignores the
  flag that it is passed and takes the one of the whole input instead.
\<close>

theorem symmetric_search_signed_flag:
  "(np_any_negative (data tensor_data) \<longleftrightarrow> (\<exists>v\<in>set (data tensor_data). v < 0)) \<and>
   (np_any_negative bins \<longleftrightarrow> (\<exists>v\<in>set bins. v < 0)) \<and>
   symmetric_selection_tensor E tensor_data p n_bits per_channel channel_axis n_iter min_threshold
       quant_error_method
     = symmetric_selection_tensor
         (E\<lparr>quantize_tensor :=
               \<lambda>a threshold n signed. quantize_tensor E a threshold n (\<exists>v\<in>set (data tensor_data). v < 0)\<rparr>)
         tensor_data p n_bits per_channel channel_axis n_iter min_threshold quant_error_method \<and>
   symmetric_selection_histogram E bins counts p n_bits min_value max_value constrained n_iter
       min_threshold quant_error_method
     = symmetric_selection_histogram
         (E\<lparr>quantize_tensor :=
               \<lambda>a threshold n signed. quantize_tensor E a threshold n (\<exists>v\<in>set bins. v < 0),
            kl_symmetric_qparams_histogram_minimization :=
               \<lambda>b tensor_max c n signed.
                  kl_symmetric_qparams_histogram_minimization E b tensor_max c n (\<exists>v\<in>set bins. v < 0)\<rparr>)
         bins counts p n_bits min_value max_value constrained n_iter min_threshold quant_error_method"
  by (simp add: np_any_negative_iff symmetric_selection_tensor_def symmetric_selection_histogram_def
      get_tensor_max_def get_threshold_selection_histogram_error_function_def Let_def
      cong: sum.case_cong if_cong)

text \<open>
  Claim C3 on concrete inputs, with a quantizer that clips to the range of the
  grid: a tensor with the element -3 is clipped to \<open>[-1, 1]\<close> in every channel,
  and so are the edges of a histogram with the edge -3. The KL minimization
  on a histogram, which answers with the flag that it gets, gets a true flag
  with the edge -3 and a false one without a negative edge.
\<close>

theorem symmetric_search_signed_flag_witness:
  "(\<exists>v\<in>set (data \<lparr>shape = [3], data = [- 3, 1 / 2, 2]\<rparr>). v < 0) \<and>
   symmetric_selection_tensor example_externals \<lparr>shape = [3], data = [- 3, 1 / 2, 2]\<rparr> 2 8 True 0 10
       (1 / 2 ^ 28) MSE
     = Inr [THRESHOLD \<mapsto> Array \<lparr>shape = [3], data = [- 1, 1 / 2, 1]\<rparr>] \<and>
   symmetric_selection_tensor
       (example_externals\<lparr>quantize_tensor :=
          \<lambda>a threshold n signed. quantize_tensor example_externals a threshold n
             (\<exists>v\<in>set (data \<lparr>shape = [3], data = [- 3, 1 / 2, 2]\<rparr>). v < 0)\<rparr>)
       \<lparr>shape = [3], data = [- 3, 1 / 2, 2]\<rparr> 2 8 True 0 10 (1 / 2 ^ 28) MSE
     = Inr [THRESHOLD \<mapsto> Array \<lparr>shape = [3], data = [- 1, 1 / 2, 1]\<rparr>] \<and>
   (\<exists>v\<in>set [- 3, 1 / 2, 2 :: real]. v < 0) \<and>
   symmetric_selection_histogram example_externals [- 3, 1 / 2, 2] [4, 5] 2 8 (- 3) 2 True 10
       (1 / 2 ^ 28) MSE
     = Inr [THRESHOLD \<mapsto> Scalar (- 1)] \<and>
   symmetric_selection_histogram example_externals [- 3, 1 / 2, 2] [4, 5] 2 8 (- 3) 2 True 10
       (1 / 2 ^ 28) KL
     = Inr [THRESHOLD \<mapsto> Scalar 1] \<and>
   \<not> (\<exists>v\<in>set [0, 1 / 2, 2 :: real]. v < 0) \<and>
   symmetric_selection_histogram example_externals [0, 1 / 2, 2] [4, 5] 2 8 0 2 True 10
       (1 / 2 ^ 28) KL
     = Inr [THRESHOLD \<mapsto> Scalar 0]"
  using symmetric_search_signed_flag
    [where tensor_data = "\<lparr>shape = [3], data = [- 3, 1 / 2, 2]\<rparr>" and bins = "[- 3, 1 / 2, 2]"
       and E = example_externals and p = 2 and n_bits = 8 and per_channel = True
       and channel_axis = 0 and n_iter = 10 and min_threshold = "1 / 2 ^ 28"
       and quant_error_method = MSE and counts = "[4, 5]" and min_value = "- 3" and max_value = 2
       and constrained = True]
  by (simp add: symmetric_selection_tensor_def symmetric_selection_histogram_def example_externals_def
      get_tensor_max_def get_threshold_selection_tensor_error_function_def
      get_threshold_selection_histogram_error_function_def boolean_index_def np_max_def
      get_init_threshold_def first_of_x_def array1d_def np_any_negative_def np_abs_array_def
      numeral_3_eq_3)

section \<open>Properties of the configuration of the nodes\<close>

subsection \<open>The candidates for the weights\<close>

lemma create_node_weights_qc_succeeds:
  assumes "weights_quantizer_mapping fw_info (weights_quantization_method qc) = Some q"
    and "get_weights_quantization_params_fn (weights_quantization_method qc)
           (weights_threshold_method qc) = Inr pf"
  shows "\<exists>candidate. create_node_weights_qc qc fw_info axis = Inr candidate \<and>
           candidate_weights_n_bits candidate = weights_n_bits qc"
  using assms by (simp add: create_node_weights_qc_def)

lemma candidates_of_n_bits_succeeds:
  assumes "weights_quantizer_mapping fw_info (weights_quantization_method qc) = Some q"
    and "get_weights_quantization_params_fn (weights_quantization_method qc)
           (weights_threshold_method qc) = Inr pf"
  shows "\<exists>candidates. candidates_of_n_bits qc fw_info axis ns = Inr candidates \<and>
           map candidate_weights_n_bits candidates = map NBits ns"
proof (induction ns)
  case Nil
  show ?case by simp
next
  case (Cons n ns)
  obtain candidate where c: "create_node_weights_qc (qc\<lparr>weights_n_bits := NBits n\<rparr>) fw_info axis
                                = Inr candidate"
      "candidate_weights_n_bits candidate = NBits n"
    using create_node_weights_qc_succeeds [of fw_info "qc\<lparr>weights_n_bits := NBits n\<rparr>" q pf axis] assms
    by auto
  from Cons.IH obtain candidates where cs:
      "candidates_of_n_bits qc fw_info axis ns = Inr candidates"
      "map candidate_weights_n_bits candidates = map NBits ns"
    by blast
  show ?case using c cs by simp
qed

lemma descending_sort:
  "sorted_wrt (\<ge>) (rev (sort (l::int list)))"
  "distinct l \<Longrightarrow> sorted_wrt (>) (rev (sort l))"
  by (simp_all add: sorted_wrt_rev strict_sorted_iff)

text \<open>
  Claim C8, as stated, fails when a bit-width is declared twice: the list of
  bit-widths is sorted, not made distinct, so the declaration \<open>[4, 8, 8]\<close>
  gives the candidates of 8, 8 and 4 bits, two for one bit-width and not
  strictly descending.
\<close>

theorem candidates_duplicate_bit_widths:
  "map_sum id (map candidate_weights_n_bits)
     (snd (create_node_candidates_weights_qc (example_config True (NBitsList [4, 8, 8]))
             example_framework_info (Some 3)))
     = Inr [NBits 8, NBits 8, NBits 4] \<and>
   \<not> sorted_wrt (>) [8, 8, 4 :: int]"
  by (simp add: create_node_candidates_weights_qc_def example_config_def example_framework_info_def
      create_node_weights_qc_def get_weights_quantization_params_fn_def)

text \<open>
  Claim C8, amended. Let the quantization method of the weights have a
  quantizer in the framework information and a result in the dispatch. For a
  mixed-precision configuration with the declared list \<open>l\<close> of bit-widths, the
  candidates are built, one for each entry of \<open>l\<close>, and their bit-widths are the
  entries of \<open>l\<close> in descending order, strictly descending when the entries
  of \<open>l\<close> are distinct. For a configuration that is not mixed-precision, exactly
  one candidate is built, with the bit-width of the configuration.
\<close>

theorem candidates_one_per_bit_width_descending:
  assumes "weights_quantizer_mapping fw_info (weights_quantization_method qc) = Some q"
    and "get_weights_quantization_params_fn (weights_quantization_method qc)
           (weights_threshold_method qc) = Inr pf"
  shows "(is_mixed_precision qc \<and> weights_n_bits qc = NBitsList l \<longrightarrow>
            (\<exists>candidates.
               snd (create_node_candidates_weights_qc qc fw_info axis) = Inr candidates \<and>
               map candidate_weights_n_bits candidates = map NBits (rev (sort l)) \<and>
               length candidates = length l \<and>
               mset (rev (sort l)) = mset l \<and>
               sorted_wrt (\<ge>) (rev (sort l)) \<and>
               (distinct l \<longrightarrow> sorted_wrt (>) (rev (sort l))))) \<and>
         (\<not> is_mixed_precision qc \<longrightarrow>
            (\<exists>candidate.
               snd (create_node_candidates_weights_qc qc fw_info axis) = Inr [candidate] \<and>
               candidate_weights_n_bits candidate = weights_n_bits qc))"
proof (intro conjI impI)
  assume mixed: "is_mixed_precision qc \<and> weights_n_bits qc = NBitsList l"
  define qc' where "qc' = qc\<lparr>weights_n_bits := NBitsList (rev (sort l))\<rparr>"
  have "\<exists>candidates. candidates_of_n_bits qc' fw_info axis (rev (sort l)) = Inr candidates \<and>
          map candidate_weights_n_bits candidates = map NBits (rev (sort l))"
    using assms by (intro candidates_of_n_bits_succeeds [where q = q and pf = pf]) (simp_all add: qc'_def)
  then obtain candidates where cs:
      "candidates_of_n_bits qc' fw_info axis (rev (sort l)) = Inr candidates"
      "map candidate_weights_n_bits candidates = map NBits (rev (sort l))"
    by blast
  have len: "length candidates = length l"
    using arg_cong [OF cs(2), of length] by simp
  have res: "snd (create_node_candidates_weights_qc qc fw_info axis) = Inr candidates"
    using mixed cs(1) by (simp add: create_node_candidates_weights_qc_def qc'_def Let_def)
  show "\<exists>candidates.
          snd (create_node_candidates_weights_qc qc fw_info axis) = Inr candidates \<and>
          map candidate_weights_n_bits candidates = map NBits (rev (sort l)) \<and>
          length candidates = length l \<and>
          mset (rev (sort l)) = mset l \<and>
          sorted_wrt (\<ge>) (rev (sort l)) \<and>
          (distinct l \<longrightarrow> sorted_wrt (>) (rev (sort l)))"
    using res cs(2) len descending_sort [of l] by auto
next
  assume "\<not> is_mixed_precision qc"
  then show "\<exists>candidate.
               snd (create_node_candidates_weights_qc qc fw_info axis) = Inr [candidate] \<and>
               candidate_weights_n_bits candidate = weights_n_bits qc"
    using create_node_weights_qc_succeeds [OF assms, of axis]
    by (auto simp: create_node_candidates_weights_qc_def)
qed

text \<open>
  The amended claim C8 at the declaration \<open>[2, 8, 4]\<close> of the mixed-precision test,
  which gives 8, 4 and 2 bits, and at a plain configuration of 8 bits.
\<close>

theorem candidates_one_per_bit_width_descending_witness:
  "weights_quantizer_mapping example_framework_info
     (weights_quantization_method (example_config True (NBitsList [2, 8, 4])))
     = Some ''power_of_two_quantizer'' \<and>
   get_weights_quantization_params_fn
     (weights_quantization_method (example_config True (NBitsList [2, 8, 4])))
     (weights_threshold_method (example_config True (NBitsList [2, 8, 4])))
     = Inr (Some fn_mse_selection_tensor) \<and>
   is_mixed_precision (example_config True (NBitsList [2, 8, 4])) \<and>
   distinct [2, 8, 4 :: int] \<and>
   (\<exists>candidates.
      snd (create_node_candidates_weights_qc (example_config True (NBitsList [2, 8, 4]))
             example_framework_info (Some 3)) = Inr candidates \<and>
      map candidate_weights_n_bits candidates = [NBits 8, NBits 4, NBits 2] \<and>
      length candidates = length [2, 8, 4 :: int] \<and>
      sorted_wrt (>) [8, 4, 2 :: int]) \<and>
   \<not> is_mixed_precision (example_config False (NBits 8)) \<and>
   (\<exists>candidate.
      snd (create_node_candidates_weights_qc (example_config False (NBits 8))
             example_framework_info (Some 3)) = Inr [candidate] \<and>
      candidate_weights_n_bits candidate = NBits 8)"
  using candidates_one_per_bit_width_descending
      [of example_framework_info "example_config True (NBitsList [2, 8, 4])"
          "''power_of_two_quantizer''" "Some fn_mse_selection_tensor" "[2, 8, 4]" "Some 3"]
    candidates_one_per_bit_width_descending
      [of example_framework_info "example_config False (NBits 8)"
          "''power_of_two_quantizer''" "Some fn_mse_selection_tensor" "[]" "Some 3"]
  by (auto simp: example_config_def example_framework_info_def get_weights_quantization_params_fn_def)

subsection \<open>The graph of the caller\<close>

text \<open>
  A node that was configured without an exception is the node that went in,
  with the two attributes set; the loop changes the nodes that it is given
  and no other object.
\<close>

lemma set_quantization_configs_to_node_result:
  "set_quantization_configs_to_node node qc fw_info = (node', qc', Inr u) \<Longrightarrow>
   \<exists>cfg candidates. node' = node\<lparr>activation_quantization_cfg := Some cfg,
                                  candidates_weights_quantization_cfg := Some candidates\<rparr>"
  by (auto simp: set_quantization_configs_to_node_def Let_def
      split: sum.splits option.splits list.splits prod.splits)

lemma set_quantization_configs_to_nodes_length:
  "length (fst (set_quantization_configs_to_nodes h ns qc fw_info)) = length h"
  by (induction h ns qc fw_info rule: set_quantization_configs_to_nodes.induct)
     (auto split: prod.splits sum.splits)

lemma set_quantization_configs_to_nodes_frame:
  "\<forall>n\<in>set ns. k \<le> n \<Longrightarrow>
   take k (fst (set_quantization_configs_to_nodes h ns qc fw_info)) = take k h"
  by (induction h ns qc fw_info rule: set_quantization_configs_to_nodes.induct)
     (auto split: prod.splits sum.splits)

lemma set_quantization_configs_to_nodes_other:
  "j \<notin> set ns \<Longrightarrow> fst (set_quantization_configs_to_nodes h ns qc fw_info) ! j = h ! j"
  by (induction h ns qc fw_info rule: set_quantization_configs_to_nodes.induct)
     (auto split: prod.splits sum.splits)

lemma set_quantization_configs_to_nodes_result:
  "set_quantization_configs_to_nodes h ns qc fw_info = (h', qc', Inr u) \<Longrightarrow>
   distinct ns \<Longrightarrow> \<forall>n\<in>set ns. n < length h \<Longrightarrow>
   (\<forall>n\<in>set ns. \<exists>cfg candidates.
       h' ! n = (h ! n)\<lparr>activation_quantization_cfg := Some cfg,
                        candidates_weights_quantization_cfg := Some candidates\<rparr>)"
proof (induction h ns qc fw_info arbitrary: h' qc' u rule: set_quantization_configs_to_nodes.induct)
  case (1 h quant_config fw_info)
  then show ?case by simp
next
  case (2 h n ns quant_config fw_info)
  obtain node1 qc1 r where step:
    "set_quantization_configs_to_node (h ! n) quant_config fw_info = (node1, qc1, r)"
    by (cases "set_quantization_configs_to_node (h ! n) quant_config fw_info") auto
  with "2.prems"(1) obtain u1 where r: "r = Inr u1"
    by (cases r) auto
  from "2.prems"(1) step r have rest:
    "set_quantization_configs_to_nodes (h[n := node1]) ns qc1 fw_info = (h', qc', Inr u)"
    by simp
  from step r obtain cfg candidates where node1:
    "node1 = (h ! n)\<lparr>activation_quantization_cfg := Some cfg,
                      candidates_weights_quantization_cfg := Some candidates\<rparr>"
    using set_quantization_configs_to_node_result by blast
  have IH: "\<forall>m\<in>set ns. \<exists>cfg candidates.
       h' ! m = (h[n := node1] ! m)\<lparr>activation_quantization_cfg := Some cfg,
                        candidates_weights_quantization_cfg := Some candidates\<rparr>"
    using "2.IH"(1) [OF step [symmetric] refl r rest] "2.prems"(2,3) by simp
  have n_notin: "n \<notin> set ns" and n_lt: "n < length h" using "2.prems"(2,3) by simp_all
  have frame: "h' ! n = node1"
    using set_quantization_configs_to_nodes_other [OF n_notin, of "h[n := node1]" qc1 fw_info]
      rest n_lt by simp
  show ?case
  proof
    fix m assume "m \<in> set (n # ns)"
    then consider "m = n" | "m \<in> set ns" "m \<noteq> n" using n_notin by auto
    then show "\<exists>cfg candidates.
       h' ! m = (h ! m)\<lparr>activation_quantization_cfg := Some cfg,
                        candidates_weights_quantization_cfg := Some candidates\<rparr>"
    proof cases
      case 1
      then show ?thesis using frame node1 by blast
    next
      case 2
      then have "h[n := node1] ! m = h ! m" by (simp add: nth_list_update)
      moreover from 2 IH obtain cfg candidates where
        "h' ! m = (h[n := node1] ! m)\<lparr>activation_quantization_cfg := Some cfg,
                        candidates_weights_quantization_cfg := Some candidates\<rparr>"
        by blast
      ultimately show ?thesis by auto
    qed
  qed
qed


lemma deepcopy_graph_nodes:
  "i < length (nodes graph) \<Longrightarrow>
   fst (deepcopy_graph h graph) ! (nodes (snd (deepcopy_graph h graph)) ! i) = h ! (nodes graph ! i)"
  by (simp add: deepcopy_graph_def nth_append)

text \<open>
  Claim C9. For every graph whose nodes are distinct objects of the store,
  whatever \<open>set_quantization_configuration_to_graph\<close> does, also when it raises:
  every object that existed before the call is as it was, in particular every
  node of the input graph. When the call returns, it returns a graph of new
  objects only, one for each node of the input graph, and each of them is
  the node of the input graph with the two configuration attributes set.
\<close>

theorem input_graph_unchanged:
  assumes "wf_graph h graph"
    and "set_quantization_configuration_to_graph h graph quant_config fw_info = (h', quant_config', r)"
  shows "take (length h) h' = h \<and>
         (\<forall>a\<in>set (nodes graph). h' ! a = h ! a) \<and>
         (\<forall>graph_with_qcs. r = Inr graph_with_qcs \<longrightarrow>
            nodes graph_with_qcs = [length h ..< length h + length (nodes graph)] \<and>
            (\<forall>i < length (nodes graph). \<exists>cfg candidates.
               h' ! (nodes graph_with_qcs ! i) =
                 (h ! (nodes graph ! i))\<lparr>activation_quantization_cfg := Some cfg,
                     candidates_weights_quantization_cfg := Some candidates\<rparr>))"
proof -
  define h1 where "h1 = fst (deepcopy_graph h graph)"
  define g1 where "g1 = snd (deepcopy_graph h graph)"
  have g1: "nodes g1 = [length h ..< length h + length (nodes graph)]"
    by (simp add: g1_def deepcopy_graph_def)
  have h1: "take (length h) h1 = h" "length h1 = length h + length (nodes graph)"
    by (simp_all add: h1_def deepcopy_graph_def)
  obtain h2 qc2 r2 where run:
    "set_quantization_configs_to_nodes h1 (nodes g1) quant_config fw_info = (h2, qc2, r2)"
    by (cases "set_quantization_configs_to_nodes h1 (nodes g1) quant_config fw_info") auto
  have h': "h' = h2"
    using assms(2) run
    by (auto simp: set_quantization_configuration_to_graph_def h1_def g1_def
        split: prod.splits sum.splits)
  have "take (length h) h2 = take (length h) h1"
    using set_quantization_configs_to_nodes_frame [of "nodes g1" "length h" h1 quant_config fw_info]
      run by (simp add: g1)
  then have frame: "take (length h) h' = h" using h1(1) h' by simp
  have valid: "\<forall>a\<in>set (nodes graph). a < length h"
    using assms(1) by (simp add: wf_graph_def list_all_iff)
  have old: "\<forall>a\<in>set (nodes graph). h' ! a = h ! a"
  proof
    fix a assume "a \<in> set (nodes graph)"
    then have "a < length h" using valid by simp
    then have "take (length h) h' ! a = h' ! a" by simp
    then show "h' ! a = h ! a" using frame by simp
  qed
  have new: "\<exists>cfg candidates.
               h' ! (nodes graph_with_qcs ! i) =
                 (h ! (nodes graph ! i))\<lparr>activation_quantization_cfg := Some cfg,
                     candidates_weights_quantization_cfg := Some candidates\<rparr>"
    if r: "r = Inr graph_with_qcs" and i: "i < length (nodes graph)" for graph_with_qcs i
  proof -
    from assms(2) run r obtain u where r2: "r2 = Inr u" and g: "graph_with_qcs = g1"
      by (auto simp: set_quantization_configuration_to_graph_def h1_def g1_def
          split: prod.splits sum.splits)
    have all: "\<forall>n\<in>set (nodes g1). \<exists>cfg candidates.
       h2 ! n = (h1 ! n)\<lparr>activation_quantization_cfg := Some cfg,
                        candidates_weights_quantization_cfg := Some candidates\<rparr>"
      using run r2 by (intro set_quantization_configs_to_nodes_result [of h1 "nodes g1" quant_config fw_info h2 qc2 u])
        (simp_all add: g1 h1(2))
    have "nodes g1 ! i \<in> set (nodes g1)" using i by (simp add: g1)
    with all obtain cfg candidates where
      "h2 ! (nodes g1 ! i) = (h1 ! (nodes g1 ! i))\<lparr>activation_quantization_cfg := Some cfg,
                        candidates_weights_quantization_cfg := Some candidates\<rparr>"
      by blast
    moreover have "h1 ! (nodes g1 ! i) = h ! (nodes graph ! i)"
      unfolding h1_def g1_def using i by (rule deepcopy_graph_nodes)
    ultimately have "h' ! (nodes graph_with_qcs ! i) =
        (h ! (nodes graph ! i))\<lparr>activation_quantization_cfg := Some cfg,
                        candidates_weights_quantization_cfg := Some candidates\<rparr>"
      using h' g by simp
    then show ?thesis by blast
  qed
  have "r = Inr graph_with_qcs \<Longrightarrow> nodes graph_with_qcs = [length h ..< length h + length (nodes graph)]"
    for graph_with_qcs
    using assms(2) run g1
    by (auto simp: set_quantization_configuration_to_graph_def h1_def g1_def
        split: prod.splits sum.splits)
  with frame old new show ?thesis by blast
qed


text \<open>
  Claim C9 on a graph of two nodes and a mixed-precision configuration: the
  two nodes are as before, without candidates, and the returned graph has the
  two new nodes, the first with candidates of 8, 4 and 2 bits.
\<close>

theorem input_graph_unchanged_witness:
  "wf_graph example_store example_graph \<and>
   take (length example_store)
     (fst (set_quantization_configuration_to_graph example_store example_graph
             (example_config True (NBitsList [2, 8, 4])) example_framework_info))
     = example_store \<and>
   snd (snd (set_quantization_configuration_to_graph example_store example_graph
               (example_config True (NBitsList [2, 8, 4])) example_framework_info))
     = Inr \<lparr>nodes = [2, 3]\<rparr> \<and>
   map_option (map candidate_weights_n_bits)
     (candidates_weights_quantization_cfg
        (fst (set_quantization_configuration_to_graph example_store example_graph
                (example_config True (NBitsList [2, 8, 4])) example_framework_info) ! 2))
     = Some [NBits 8, NBits 4, NBits 2] \<and>
   candidates_weights_quantization_cfg
     (fst (set_quantization_configuration_to_graph example_store example_graph
             (example_config True (NBitsList [2, 8, 4])) example_framework_info) ! 0)
     = None"
  using input_graph_unchanged
    [of example_store example_graph "example_config True (NBitsList [2, 8, 4])" example_framework_info
        "fst (set_quantization_configuration_to_graph example_store example_graph
                (example_config True (NBitsList [2, 8, 4])) example_framework_info)"
        "fst (snd (set_quantization_configuration_to_graph example_store example_graph
                (example_config True (NBitsList [2, 8, 4])) example_framework_info))"
        "snd (snd (set_quantization_configuration_to_graph example_store example_graph
                (example_config True (NBitsList [2, 8, 4])) example_framework_info))"]
  by (simp add: wf_graph_def example_store_def example_graph_def example_config_def
      example_framework_info_def set_quantization_configuration_to_graph_def deepcopy_graph_def
      set_quantization_configs_to_node_def create_node_activation_qc_def
      create_node_candidates_weights_qc_def create_node_weights_qc_def Logger_critical_def
      get_activation_quantization_params_fn_def get_weights_quantization_params_fn_def
      Let_def upt_rec)

end
